theory Spec2Isabelle
  imports Main "HOL-Library.Word" "HOL-Library.Signed_Division"
    "HOL-Library.Char_ord" "HOL-Library.List_Lexorder" "HOL-Library.Multiset"
begin

unbundle bit_operations_syntax

section \<open>Data model (internal/models)\<close>

text \<open>
  Go's \<^verbatim>\<open>int\<close> and \<^verbatim>\<open>time.Duration\<close> are 64-bit two's-complement integers on the
  64-bit Linux targets the agent is built for; both are words here, compared through
  their signed reading (\<open><s\<close>, \<open>sint\<close>), and \<open>*\<close> wraps as the machine does.
  A \<^verbatim>\<open>time.Time\<close> is used by the modelled code only through \<^verbatim>\<open>IsZero\<close>,
  \<^verbatim>\<open>After\<close>, \<^verbatim>\<open>Before\<close> and \<^verbatim>\<open>Equal\<close>, which compare instants: an instant is
  the number of nanoseconds since Go's zero time, so the zero time is \<open>0\<close>.
\<close>

type_synonym int64 = "64 word"
type_synonym Duration = "64 word"
type_synonym Time = int

definition Second :: Duration where
  "Second = 1000000000"

definition IsZero :: "Time \<Rightarrow> bool" where
  "IsZero t = (t = 0)"

definition After :: "Time \<Rightarrow> Time \<Rightarrow> bool" where
  "After t u = (u < t)"

definition Before :: "Time \<Rightarrow> Time \<Rightarrow> bool" where
  "Before t u = (t < u)"

definition Equal :: "Time \<Rightarrow> Time \<Rightarrow> bool" where
  "Equal t u = (t = u)"

text \<open>
  \<^verbatim>\<open>models.Ad\<close>. The \<^verbatim>\<open>Metadata\<close> bag is left out: no modelled function reads it.
\<close>

record Ad =
  ID :: string
  Title :: string
  Type :: string
  ContentURL :: string
  Duration :: int64
  StartTime :: Time
  EndTime :: Time
  Priority :: int64

record AdDeliveryResponse =
  Ads :: "Ad list"
  PlaylistID :: string
  UpdatedAt :: Time

section \<open>Scheduler (internal/player/scheduler.go)\<close>

record Scheduler =
  defaultDuration :: Duration
  transitionDelay :: Duration
  minDuration :: Duration
  maxDuration :: Duration

definition NewScheduler :: "int64 \<Rightarrow> int64 \<Rightarrow> Scheduler" where
  "NewScheduler defaultDurationSeconds transitionDelaySeconds =
     \<lparr> defaultDuration = defaultDurationSeconds * Second,
       transitionDelay = transitionDelaySeconds * Second,
       minDuration = 5 * Second,
       maxDuration = 300 * Second \<rparr>"

definition GetAdDuration :: "Scheduler \<Rightarrow> Ad \<Rightarrow> Duration" where
  "GetAdDuration s ad =
     (let duration = (if 0 <s Duration ad then Duration ad * Second else defaultDuration s);
          duration = (if duration <s minDuration s then minDuration s else duration);
          duration = (if maxDuration s <s duration then maxDuration s else duration)
      in duration)"

definition GetTransitionDelay :: "Scheduler \<Rightarrow> Duration" where
  "GetTransitionDelay s = transitionDelay s"

text \<open>
  \<^verbatim>\<open>ShouldTransition\<close> reads the clock (\<^verbatim>\<open>time.Since\<close>); the elapsed time is passed in.
\<close>

definition ShouldTransition :: "Scheduler \<Rightarrow> Ad \<Rightarrow> Duration \<Rightarrow> bool" where
  "ShouldTransition s ad elapsed = (GetAdDuration s ad \<le>s elapsed)"

text \<open>The clamp of the specification, on unbounded integers (nanoseconds).\<close>

definition clamp_spec :: "int \<Rightarrow> int \<Rightarrow> int \<Rightarrow> int" where
  "clamp_spec lo hi x = (if x < lo then lo else if hi < x then hi else x)"

definition DurationFor_spec :: "int \<Rightarrow> int \<Rightarrow> int" where
  "DurationFor_spec default_ns d =
     clamp_spec 5000000000 300000000000 (if 0 < d then d * 1000000000 else default_ns)"

definition sample_ad :: Ad where
  "sample_ad = \<lparr> ID = ''ad-A'', Title = ''A'', Type = ''image'',
     ContentURL = ''http://cdn/x.jpg'', Duration = 10, StartTime = 0, EndTime = 0,
     Priority = 0 \<rparr>"

section \<open>Playlist (package player: Playlist)\<close>

text \<open>
  \<^verbatim>\<open>sync.RWMutex\<close> as the state a single goroutine sees. The lock is not re-entrant: it
  does not know which goroutine holds it. \<^verbatim>\<open>Lock\<close> returns only from an unlocked
  mutex; \<^verbatim>\<open>RLock\<close> returns unless the mutex is held for writing. A call that does
  not return suspends the calling goroutine until some other goroutine releases the lock;
  when the holder is the caller itself nobody does, and the call never returns.
\<close>

datatype RWMutex = Unlocked | WLocked | RLocked nat

text \<open>
  What a call does: it blocks and never returns, it panics, or it returns a value.
\<close>

datatype 'a call = Blocked | Panicked | Returned 'a

definition Lock :: "RWMutex \<Rightarrow> RWMutex call" where
  "Lock m = (case m of Unlocked \<Rightarrow> Returned WLocked | WLocked \<Rightarrow> Blocked | RLocked n \<Rightarrow> Blocked)"

definition RLock :: "RWMutex \<Rightarrow> RWMutex call" where
  "RLock m = (case m of Unlocked \<Rightarrow> Returned (RLocked 1) | WLocked \<Rightarrow> Blocked
              | RLocked n \<Rightarrow> Returned (RLocked (Suc n)))"

definition Unlock :: "RWMutex \<Rightarrow> RWMutex" where
  "Unlock m = Unlocked"

definition RUnlock :: "RWMutex \<Rightarrow> RWMutex" where
  "RUnlock m = (case m of RLocked (Suc (Suc n)) \<Rightarrow> RLocked (Suc n) | _ \<Rightarrow> Unlocked)"

record Playlist =
  ads :: "Ad list"
  currentIdx :: int64
  lastUpdate :: Time
  mu :: RWMutex

definition NewPlaylist :: Playlist where
  "NewPlaylist = \<lparr> ads = [], currentIdx = 0, lastUpdate = 0, mu = Unlocked \<rparr>"

text \<open>\<^verbatim>\<open>len(p.ads)\<close> as a Go \<^verbatim>\<open>int\<close>.\<close>

definition len :: "'a list \<Rightarrow> int64" where
  "len xs = of_nat (length xs)"

definition Playlist_UpdateAds :: "Time \<Rightarrow> AdDeliveryResponse \<Rightarrow> Playlist \<Rightarrow> Playlist call" where
  "Playlist_UpdateAds now adResponse p =
     (case Lock (mu p) of
        Blocked \<Rightarrow> Blocked
      | Panicked \<Rightarrow> Panicked
      | Returned m \<Rightarrow>
          (let p = p\<lparr>mu := m, ads := Ads adResponse, lastUpdate := now\<rparr>;
               p = (if len (ads p) \<le>s currentIdx p then p\<lparr>currentIdx := 0\<rparr> else p)
           in Returned (p\<lparr>mu := Unlock (mu p)\<rparr>)))"

text \<open>
  The body of the loop of \<^verbatim>\<open>FilterByTime\<close>: \<open>activeAds\<close> is the slice built so far.
\<close>

fun FilterByTime_loop :: "Time \<Rightarrow> Ad list \<Rightarrow> Ad list \<Rightarrow> Ad list" where
  "FilterByTime_loop now [] activeAds = activeAds"
| "FilterByTime_loop now (ad # rest) activeAds =
     (if IsZero (StartTime ad) \<and> IsZero (EndTime ad)
      then FilterByTime_loop now rest (activeAds @ [ad])
      else
        (let startOK = (IsZero (StartTime ad) \<or> After now (StartTime ad) \<or> Equal now (StartTime ad));
             endOK = (IsZero (EndTime ad) \<or> Before now (EndTime ad) \<or> Equal now (EndTime ad))
         in if startOK \<and> endOK
            then FilterByTime_loop now rest (activeAds @ [ad])
            else FilterByTime_loop now rest activeAds))"

text \<open>
  \<^verbatim>\<open>FilterByTime\<close> takes the read lock, and its deferred \<^verbatim>\<open>RUnlock\<close> gives it back, so
  a call that returns leaves the playlist as it found it: the result is the slice alone.
\<close>

definition FilterByTime :: "Time \<Rightarrow> Playlist \<Rightarrow> Ad list call" where
  "FilterByTime now p =
     (case RLock (mu p) of
        Blocked \<Rightarrow> Blocked
      | Panicked \<Rightarrow> Panicked
      | Returned m \<Rightarrow> Returned (FilterByTime_loop now (ads p) []))"

text \<open>
  The \<^verbatim>\<open>less\<close> function handed to \<^verbatim>\<open>sort.Slice\<close>; Go compares strings bytewise, which
  is the lexicographic order on \<open>char list\<close>.
\<close>

definition less_ad :: "Ad \<Rightarrow> Ad \<Rightarrow> bool" where
  "less_ad a b =
     (if Priority a \<noteq> Priority b then Priority b <s Priority a else ID a < ID b)"

text \<open>
  \<^verbatim>\<open>sort.Slice\<close> sorts a copy by \<open>less_ad\<close> and is not guaranteed stable. The model is
  insertion sort, which keeps the input order of two ads that \<open>less_ad\<close> does not
  separate (same priority and same id); the library may order such a pair either way.
\<close>

fun insert_ad :: "Ad \<Rightarrow> Ad list \<Rightarrow> Ad list" where
  "insert_ad x [] = [x]"
| "insert_ad x (y # ys) = (if less_ad x y then x # y # ys else y # insert_ad x ys)"

definition SortByPriority :: "Ad list \<Rightarrow> Ad list" where
  "SortByPriority as = foldr insert_ad as []"

text \<open>
  \<^verbatim>\<open>GetNextAd\<close> after line 99: what it does with the slice \<^verbatim>\<open>FilterByTime\<close> returned.
  Go's \<^verbatim>\<open>%\<close> truncates towards zero (\<open>smod\<close>), and a negative index panics.
\<close>

definition GetNextAd_select :: "Ad list \<Rightarrow> Playlist \<Rightarrow> (Ad option \<times> Playlist) call" where
  "GetNextAd_select activeAds p =
     (if length activeAds = 0 then Returned (None, p\<lparr>mu := Unlock (mu p)\<rparr>)
      else
        (let sortedAds = SortByPriority activeAds in
         if length sortedAds > 0 then
           (let i = sint (currentIdx p) smod int (length sortedAds) in
            if i < 0 \<or> int (length sortedAds) \<le> i then Panicked
            else Returned (Some (sortedAds ! nat i),
                           p\<lparr>currentIdx := currentIdx p + 1, mu := Unlock (mu p)\<rparr>))
         else Returned (None, p\<lparr>mu := Unlock (mu p)\<rparr>)))"

text \<open>
  \<^verbatim>\<open>GetNextAd\<close>: \<^verbatim>\<open>p.mu.Lock()\<close> at line 94, then \<^verbatim>\<open>p.FilterByTime(now)\<close> at line 99,
  which asks for \<^verbatim>\<open>p.mu.RLock()\<close> on the same mutex while the write lock is held.
\<close>

definition GetNextAd :: "Time \<Rightarrow> Playlist \<Rightarrow> (Ad option \<times> Playlist) call" where
  "GetNextAd now p =
     (case Lock (mu p) of
        Blocked \<Rightarrow> Blocked
      | Panicked \<Rightarrow> Panicked
      | Returned m \<Rightarrow>
          (case FilterByTime now (p\<lparr>mu := m\<rparr>) of
             Blocked \<Rightarrow> Blocked
           | Panicked \<Rightarrow> Panicked
           | Returned activeAds \<Rightarrow> GetNextAd_select activeAds (p\<lparr>mu := m\<rparr>)))"

text \<open>The time-window predicate in the words of the specification.\<close>

definition in_window_spec :: "Time \<Rightarrow> Ad \<Rightarrow> bool" where
  "in_window_spec now a =
     ((StartTime a = 0 \<or> StartTime a \<le> now) \<and> (EndTime a = 0 \<or> now \<le> EndTime a))"

definition scenario_D :: Playlist where
  "scenario_D = \<lparr> ads = [sample_ad\<lparr>ID := ''U''\<rparr>,
                         sample_ad\<lparr>ID := ''V'', StartTime := 4600\<rparr>,
                         sample_ad\<lparr>ID := ''W'', EndTime := 940\<rparr>],
                  currentIdx = 0, lastUpdate = 0, mu = Unlocked \<rparr>"

section \<open>Server client (package client)\<close>

text \<open>
  The network is the environment. \<open>Do k req\<close> is what the \<open>k\<close>-th round trip of the
  process (\<^verbatim>\<open>c.httpClient.Do(req)\<close>, bounded by the client's 10 s timeout) comes back
  with: a transport error or a response. The world counts the round trips made and
  records every \<^verbatim>\<open>time.Sleep\<close> in order.
\<close>

record Response =
  StatusCode :: int
  Body :: string

record HeartbeatRequest =
  hb_Status :: string
  hb_Timestamp :: Time

record Request =
  Method :: string
  URL :: string
  Header :: "(string \<times> string) list"
  ReqBody :: "HeartbeatRequest option"

type_synonym transport = "nat \<Rightarrow> Request \<Rightarrow> string + Response"

record World =
  calls :: nat
  slept :: "Duration list"

definition Sleep :: "Duration \<Rightarrow> World \<Rightarrow> World" where
  "Sleep d w = w\<lparr>slept := slept w @ [d]\<rparr>"

datatype error =
    RequestCreation string
  | RequestFailed int "string option"
  | ConnectionFailed error
  | AuthenticationFailed string
  | ScreenNotFound string string
  | ConnectionStatus int string
  | ConnectionParse
  | HeartbeatFailed error
  | HeartbeatStatus int string
  | FetchFailed error
  | FetchStatus int string
  | FetchParse

record Client =
  baseURL :: string
  screenID :: string
  passkey :: string

definition NewClient :: "string \<Rightarrow> string \<Rightarrow> string \<Rightarrow> Client" where
  "NewClient b s k = \<lparr> baseURL = b, screenID = s, passkey = k \<rparr>"

text \<open>
  \<^verbatim>\<open>createRequest\<close>. \<^verbatim>\<open>http.NewRequest\<close> refuses a URL it cannot parse; which URLs
  parse is the library's business and is the parameter \<open>url_ok\<close>. The bodies the client
  sends (none, or a heartbeat request) always marshal.
\<close>

definition createRequest ::
  "(string \<Rightarrow> bool) \<Rightarrow> Client \<Rightarrow> string \<Rightarrow> string \<Rightarrow> HeartbeatRequest option \<Rightarrow> error + Request" where
  "createRequest url_ok c method url body =
     (if \<not> url_ok url then Inl (RequestCreation url)
      else Inr \<lparr> Method = method, URL = url,
                 Header = [(''Content-Type'', ''application/json'')]
                   @ (if screenID c \<noteq> [] then [(''X-Screen-Id'', screenID c)] else [])
                   @ (if passkey c \<noteq> [] then [(''X-Screen-Passkey'', passkey c)] else []),
                 ReqBody = body \<rparr>)"

text \<open>
  The loop of \<^verbatim>\<open>doRequest\<close>, entered with the loop variable \<open>attempt\<close> and the last
  error so far. The counters are Go \<^verbatim>\<open>int\<close>s; every caller passes \<open>maxRetries = 3\<close>.
\<close>

function doRequest_loop ::
  "transport \<Rightarrow> Request \<Rightarrow> int \<Rightarrow> Duration \<Rightarrow> int \<Rightarrow> string option \<Rightarrow> World
     \<Rightarrow> (error + Response) \<times> World" where
  "doRequest_loop Do req maxRetries retryDelay attempt lastErr w =
     (if attempt \<le> maxRetries then
        (case Do (calls (if 0 < attempt then Sleep (retryDelay * word_of_int attempt) w else w)) req of
           Inr resp \<Rightarrow>
             (Inr resp,
              (if 0 < attempt then Sleep (retryDelay * word_of_int attempt) w else w)
                \<lparr>calls := Suc (calls w)\<rparr>)
         | Inl err \<Rightarrow>
             doRequest_loop Do req maxRetries retryDelay (attempt + 1) (Some err)
               ((if 0 < attempt then Sleep (retryDelay * word_of_int attempt) w else w)
                  \<lparr>calls := Suc (calls w)\<rparr>))
      else (Inl (RequestFailed (maxRetries + 1) lastErr), w))"
  by pat_completeness auto
termination
  by (relation "measure (\<lambda>(Do, req, maxRetries, retryDelay, attempt, lastErr, w).
        nat (maxRetries + 1 - attempt))") auto

definition doRequest ::
  "transport \<Rightarrow> Request \<Rightarrow> int \<Rightarrow> Duration \<Rightarrow> World \<Rightarrow> (error + Response) \<times> World" where
  "doRequest Do req maxRetries retryDelay w = doRequest_loop Do req maxRetries retryDelay 0 None w"

definition connect_url :: "Client \<Rightarrow> string" where
  "connect_url c = baseURL c @ ''/api/v1/screens/'' @ screenID c @ ''/connect''"

definition heartbeat_url :: "Client \<Rightarrow> string \<Rightarrow> string" where
  "heartbeat_url c sid = baseURL c @ ''/api/v1/screens/'' @ sid @ ''/heartbeat''"

definition ads_url :: "Client \<Rightarrow> string \<Rightarrow> string" where
  "ads_url c sid = baseURL c @ ''/api/v1/screens/'' @ sid @ ''/ads/deliver''"

text \<open>
  \<^verbatim>\<open>Connect\<close>. The JSON decoder of the identity record is the parameter \<open>decode\<close>.
\<close>

definition Connect ::
  "(string \<Rightarrow> bool) \<Rightarrow> (string \<Rightarrow> 'screen option) \<Rightarrow> transport \<Rightarrow> Client \<Rightarrow> World
     \<Rightarrow> (error + 'screen) \<times> World" where
  "Connect url_ok decode Do c w =
     (case createRequest url_ok c ''POST'' (connect_url c) None of
        Inl err \<Rightarrow> (Inl err, w)
      | Inr req \<Rightarrow>
          (case doRequest Do req 3 (2 * Second) w of
             (Inl err, w') \<Rightarrow> (Inl (ConnectionFailed err), w')
           | (Inr resp, w') \<Rightarrow>
               (if StatusCode resp = 401 then (Inl (AuthenticationFailed (Body resp)), w')
                else if StatusCode resp = 404 then (Inl (ScreenNotFound (screenID c) (Body resp)), w')
                else if StatusCode resp \<noteq> 200 then (Inl (ConnectionStatus (StatusCode resp) (Body resp)), w')
                else (case decode (Body resp) of
                        None \<Rightarrow> (Inl ConnectionParse, w')
                      | Some screen \<Rightarrow> (Inr screen, w')))))"

definition Heartbeat ::
  "(string \<Rightarrow> bool) \<Rightarrow> transport \<Rightarrow> Time \<Rightarrow> Client \<Rightarrow> string \<Rightarrow> World \<Rightarrow> error option \<times> World" where
  "Heartbeat url_ok Do requestTime c sid w =
     (case createRequest url_ok c ''PUT'' (heartbeat_url c sid)
             (Some \<lparr> hb_Status = ''online'', hb_Timestamp = requestTime \<rparr>) of
        Inl err \<Rightarrow> (Some err, w)
      | Inr req \<Rightarrow>
          (case doRequest Do req 3 (2 * Second) w of
             (Inl err, w') \<Rightarrow> (Some (HeartbeatFailed err), w')
           | (Inr resp, w') \<Rightarrow>
               (if StatusCode resp \<noteq> 200 \<and> StatusCode resp \<noteq> 204
                then (Some (HeartbeatStatus (StatusCode resp) (Body resp)), w')
                else (None, w'))))"

definition GetAds ::
  "(string \<Rightarrow> bool) \<Rightarrow> (string \<Rightarrow> AdDeliveryResponse option) \<Rightarrow> transport \<Rightarrow> Time \<Rightarrow> Client
     \<Rightarrow> string \<Rightarrow> World \<Rightarrow> (error + AdDeliveryResponse) \<times> World" where
  "GetAds url_ok decode Do now c sid w =
     (case createRequest url_ok c ''GET'' (ads_url c sid) None of
        Inl err \<Rightarrow> (Inl err, w)
      | Inr req \<Rightarrow>
          (case doRequest Do req 3 (2 * Second) w of
             (Inl err, w') \<Rightarrow> (Inl (FetchFailed err), w')
           | (Inr resp, w') \<Rightarrow>
               (if StatusCode resp = 204
                then (Inr \<lparr> Ads = [], PlaylistID = [], UpdatedAt = now \<rparr>, w')
                else if StatusCode resp \<noteq> 200
                then (Inl (FetchStatus (StatusCode resp) (Body resp)), w')
                else (case decode (Body resp) of
                        None \<Rightarrow> (Inl FetchParse, w')
                      | Some adResponse \<Rightarrow> (Inr adResponse, w')))))"

section \<open>Runtime configuration (internal/models/config.go, internal/config/loader.go)\<close>

text \<open>The identity part of the configuration plays no role below and is left out.\<close>

record ScreenConfig =
  AdServerURL :: string
  HeartbeatInterval :: int64
  AdFetchInterval :: int64
  RetryAttempts :: int64
  RetryDelay :: int64

definition DefaultConfig :: ScreenConfig where
  "DefaultConfig = \<lparr> AdServerURL = ''http://10.42.0.1:8080'', HeartbeatInterval = 30,
     AdFetchInterval = 60, RetryAttempts = 3, RetryDelay = 5 \<rparr>"

text \<open>
  How the main program builds the client from the configuration:
  \<^verbatim>\<open>client.NewClient(screenConfig.AdServerURL, screenID, passkey)\<close>.
\<close>

definition client_of_config :: "ScreenConfig \<Rightarrow> string \<Rightarrow> string \<Rightarrow> Client" where
  "client_of_config cfg sid key = NewClient (AdServerURL cfg) sid key"

text \<open>Transports for concrete runs: one that never gets through, one that always answers.\<close>

definition unreachable :: transport where
  "unreachable k req = Inl ''connection refused''"

definition answers :: "int \<Rightarrow> transport" where
  "answers code k req = Inr \<lparr> StatusCode = code, Body = [] \<rparr>"

definition fresh :: World where
  "fresh = \<lparr> calls = 0, slept = [] \<rparr>"

text \<open>
  The three operations under one name, keeping the error (if any) and the world.
\<close>

datatype Operation = OpConnect | OpHeartbeat | OpGetAds

definition perform ::
  "(string \<Rightarrow> bool) \<Rightarrow> (string \<Rightarrow> 'screen option) \<Rightarrow> (string \<Rightarrow> AdDeliveryResponse option)
     \<Rightarrow> transport \<Rightarrow> Time \<Rightarrow> Client \<Rightarrow> string \<Rightarrow> Operation \<Rightarrow> World \<Rightarrow> error option \<times> World" where
  "perform url_ok decodeScreen decodeAds Do now c sid opn w =
     (case opn of
        OpConnect \<Rightarrow>
          (case Connect url_ok decodeScreen Do c w of
             (Inl err, w') \<Rightarrow> (Some err, w') | (Inr screen, w') \<Rightarrow> (None, w'))
      | OpHeartbeat \<Rightarrow> Heartbeat url_ok Do now c sid w
      | OpGetAds \<Rightarrow>
          (case GetAds url_ok decodeAds Do now c sid w of
             (Inl err, w') \<Rightarrow> (Some err, w') | (Inr adResponse, w') \<Rightarrow> (None, w')))"

text \<open>
  The accept sets of the specification: 200 for connect, 200 and 204 for heartbeat and
  for the ad fetch.
\<close>

definition accepts_spec :: "Operation \<Rightarrow> int \<Rightarrow> bool" where
  "accepts_spec opn code =
     (case opn of OpConnect \<Rightarrow> code = 200
      | OpHeartbeat \<Rightarrow> code = 200 \<or> code = 204
      | OpGetAds \<Rightarrow> code = 200 \<or> code = 204)"

text \<open>
  What the specification's retry rule leaves behind when no round trip gets through:
  one attempt and \<open>N\<close> more, \<open>N\<close> the configured retry attempts, and before retry
  \<open>attempt\<close> a sleep of the configured base delay times \<open>attempt\<close>.
\<close>

definition exhausted_spec :: "ScreenConfig \<Rightarrow> World \<Rightarrow> World" where
  "exhausted_spec cfg w =
     w\<lparr> calls := calls w + 1 + unat (RetryAttempts cfg),
        slept := slept w @ map (\<lambda>attempt. RetryDelay cfg * Second * of_nat attempt)
                             [1 ..< Suc (unat (RetryAttempts cfg))] \<rparr>"

section \<open>Heartbeat loop (package heartbeat)\<close>

datatype Status = StatusUnknown | StatusConnected | StatusDisconnected | StatusError

text \<open>
  The scheduler's fields; \<open>cancelled\<close> is the state of its context. The retry counter is
  a Go \<^verbatim>\<open>int\<close>, which a loop counting up from 0 cannot overflow in any run that ends.
\<close>

record HeartbeatScheduler =
  hb_client :: Client
  hb_screenID :: string
  interval :: Duration
  retryAttempts :: int
  retryDelay :: Duration
  cancelled :: bool
  status :: Status
  lastSent :: Time
  lastError :: "error option"











section \<open>Player (package player: Player)\<close>

datatype PlayerState =
  PlayerStateStopped | PlayerStatePlaying | PlayerStatePaused | PlayerStateLoading | PlayerStateError

record PlayerStats =
  TotalAdsPlayed :: int64
  CurrentAdID :: string
  CurrentAdType :: string
  PlaybackStartTime :: Time
  LastError :: "string option"
  State :: PlayerState

text \<open>
  The player's own mutable fields. The playlist, the scheduler, the downloader, the
  renderer and the storage are collaborators: what their calls return comes with the
  event below, and a call of theirs that never returns contributes no further event.
  \<open>ctx_done\<close> is the state of the player's context; \<open>loops\<close> counts the
  \<^verbatim>\<open>playbackLoop\<close> goroutines that have not returned, and \<open>loading\<close> those of them that
  are inside \<^verbatim>\<open>loadNextAd\<close>, past its first critical section.
\<close>

record Player =
  currentAd :: "Ad option"
  state :: PlayerState
  stats :: PlayerStats
  ctx_done :: bool
  loops :: nat
  loading :: nat

definition NewPlayer :: Player where
  "NewPlayer =
     \<lparr> currentAd = None, state = PlayerStateStopped,
       stats = \<lparr> TotalAdsPlayed = 0, CurrentAdID = [], CurrentAdType = [],
                 PlaybackStartTime = 0, LastError = None, State = PlayerStateStopped \<rparr>,
       ctx_done = False, loops = 0, loading = 0 \<rparr>"

definition set_state :: "PlayerState \<Rightarrow> Player \<Rightarrow> Player" where
  "set_state s p = p\<lparr> state := s, stats := (stats p)\<lparr>State := s\<rparr> \<rparr>"

text \<open>
  \<^verbatim>\<open>Start\<close>: nothing when already playing; else the playlist is reloaded from storage
  (a collaborator), the state becomes playing and a \<^verbatim>\<open>playbackLoop\<close> is spawned.
\<close>

definition Start :: "Player \<Rightarrow> Player" where
  "Start p =
     (if state p = PlayerStatePlaying then p
      else (set_state PlayerStatePlaying p)\<lparr>loops := Suc (loops p)\<rparr>)"

definition Stop :: "Player \<Rightarrow> Player" where
  "Stop p =
     (if state p = PlayerStateStopped then p
      else (set_state PlayerStateStopped (p\<lparr>ctx_done := True\<rparr>))\<lparr>currentAd := None\<rparr>)"

definition Pause :: "Player \<Rightarrow> Player" where
  "Pause p = (if state p \<noteq> PlayerStatePlaying then p else set_state PlayerStatePaused p)"

definition Resume :: "Player \<Rightarrow> Player" where
  "Resume p = (if state p \<noteq> PlayerStatePaused then p else set_state PlayerStatePlaying p)"

text \<open>
  \<^verbatim>\<open>UpdateAds\<close> forwards the manifest to the playlist and calls the callback: the
  player's own fields stay as they are.
\<close>

definition Player_UpdateAds :: "AdDeliveryResponse \<Rightarrow> Player \<Rightarrow> Player" where
  "Player_UpdateAds adResponse p = p"

text \<open>
  \<^verbatim>\<open>loadNextAd\<close>, one definition for each of its critical sections (the blocks between
  \<^verbatim>\<open>p.mu.Lock()\<close> and \<^verbatim>\<open>p.mu.Unlock()\<close>), and for the return without one.
  Lines 375-378: enter loading.
\<close>

definition loadNextAd_begin :: "Player \<Rightarrow> Player" where
  "loadNextAd_begin p = (set_state PlayerStateLoading p)\<lparr>loading := Suc (loading p)\<rparr>"

text \<open>Lines 381-389: the selector returned nil.\<close>

definition loadNextAd_no_ad :: "Player \<Rightarrow> Player" where
  "loadNextAd_no_ad p =
     (set_state PlayerStatePlaying (p\<lparr>currentAd := None\<rparr>))\<lparr>loading := loading p - 1\<rparr>"

text \<open>Lines 393-404: the download failed and no cached copy exists; plain return.\<close>

definition loadNextAd_skip :: "Player \<Rightarrow> Player" where
  "loadNextAd_skip p = p\<lparr>loading := loading p - 1\<rparr>"

text \<open>Lines 411-423: the renderer failed.\<close>

definition loadNextAd_render_failed :: "string \<Rightarrow> Player \<Rightarrow> Player" where
  "loadNextAd_render_failed err p =
     ((set_state PlayerStateError p)\<lparr>stats := (stats (set_state PlayerStateError p))\<lparr>LastError := Some err\<rparr>\<rparr>)
       \<lparr>loading := loading p - 1\<rparr>"

text \<open>Lines 428-433: the ad is on screen.\<close>

definition loadNextAd_rendered :: "Ad \<Rightarrow> Player \<Rightarrow> Player" where
  "loadNextAd_rendered ad p =
     ((set_state PlayerStatePlaying (p\<lparr>currentAd := Some ad\<rparr>))
        \<lparr>stats := (stats (set_state PlayerStatePlaying p))
                    \<lparr>TotalAdsPlayed := TotalAdsPlayed (stats p) + 1\<rparr>\<rparr>)
       \<lparr>loading := loading p - 1\<rparr>"

text \<open>\<^verbatim>\<open>playbackLoop\<close>, lines 349-357: after \<^verbatim>\<open>loadNextAd\<close>, the stats of a current ad.\<close>

definition playbackLoop_stats :: "Time \<Rightarrow> Player \<Rightarrow> Player" where
  "playbackLoop_stats now p =
     (case currentAd p of
        None \<Rightarrow> p
      | Some ad \<Rightarrow> p\<lparr>stats := (stats p)\<lparr>CurrentAdID := ID ad, CurrentAdType := Type ad,
                                          PlaybackStartTime := now\<rparr>\<rparr>)"

text \<open>
  The events of a run. The public operations can be called at any time. A loop step needs
  a goroutine at the right place: one outside \<^verbatim>\<open>loadNextAd\<close> for \<open>LoopLoadBegin\<close>,
  \<open>LoopStats\<close> and \<open>LoopExit\<close> (the last also needs the context cancelled), one inside for
  the four ways \<^verbatim>\<open>loadNextAd\<close> ends. The loop reads the state and the current ad before
  it calls \<^verbatim>\<open>loadNextAd\<close>, and other goroutines may run in between: the state at
  \<open>LoopLoadBegin\<close> is not constrained. An event that cannot happen has no successor.
\<close>

datatype player_event =
    CallStart | CallStop | CallPause | CallResume | CallUpdateAds AdDeliveryResponse
  | LoopLoadBegin | LoopNoAd | LoopSkip | LoopRenderFailed string | LoopRendered Ad
  | LoopStats Time | LoopExit

definition player_step :: "player_event \<Rightarrow> Player \<Rightarrow> Player option" where
  "player_step ev p =
     (case ev of
        CallStart \<Rightarrow> Some (Start p)
      | CallStop \<Rightarrow> Some (Stop p)
      | CallPause \<Rightarrow> Some (Pause p)
      | CallResume \<Rightarrow> Some (Resume p)
      | CallUpdateAds adResponse \<Rightarrow> Some (Player_UpdateAds adResponse p)
      | LoopLoadBegin \<Rightarrow> (if loading p < loops p then Some (loadNextAd_begin p) else None)
      | LoopNoAd \<Rightarrow> (if 0 < loading p then Some (loadNextAd_no_ad p) else None)
      | LoopSkip \<Rightarrow> (if 0 < loading p then Some (loadNextAd_skip p) else None)
      | LoopRenderFailed err \<Rightarrow>
          (if 0 < loading p then Some (loadNextAd_render_failed err p) else None)
      | LoopRendered ad \<Rightarrow> (if 0 < loading p then Some (loadNextAd_rendered ad p) else None)
      | LoopStats now \<Rightarrow> (if loading p < loops p then Some (playbackLoop_stats now p) else None)
      | LoopExit \<Rightarrow>
          (if loading p < loops p \<and> ctx_done p then Some (p\<lparr>loops := loops p - 1\<rparr>) else None))"

fun player_run :: "player_event list \<Rightarrow> Player \<Rightarrow> Player option" where
  "player_run [] p = Some p"
| "player_run (ev # evs) p =
     (case player_step ev p of None \<Rightarrow> None | Some p' \<Rightarrow> player_run evs p')"

section \<open>Ad storage paths and media downloader (internal/ads/storage.go, internal/player/downloader.go)\<close>

text \<open>
  The file system as the downloader sees it: the regular files and their contents.
  \<^verbatim>\<open>os.Stat\<close> succeeds on the paths that are there and reports the length.
  \<^verbatim>\<open>filepath.Join\<close> is the library's and is the parameter \<open>join\<close> throughout.
\<close>

type_synonym path = string
type_synonym fs = "path \<rightharpoonup> string"

definition Stat :: "fs \<Rightarrow> path \<Rightarrow> nat option" where
  "Stat files p = map_option length (files p)"

record Storage =
  adsDir :: path
  adsFile :: path
  mediaDir :: path

definition NewStorage :: "(string list \<Rightarrow> path) \<Rightarrow> path \<Rightarrow> Storage" where
  "NewStorage join configDir =
     \<lparr> adsDir = join [configDir, ''ads''],
       adsFile = join [join [configDir, ''ads''], ''current_ads.json''],
       mediaDir = join [join [configDir, ''ads''], ''media''] \<rparr>"

definition GetAdMediaPath :: "(string list \<Rightarrow> path) \<Rightarrow> Storage \<Rightarrow> string \<Rightarrow> string \<Rightarrow> path" where
  "GetAdMediaPath join s adID fileName = join [mediaDir s, adID, fileName]"

text \<open>
  \<^verbatim>\<open>filepath.Ext\<close>: the suffix from the last dot of the last slash-separated element,
  empty without a dot. \<open>Ext_scan\<close> walks the reversed path as the library's loop walks
  down from the end, collecting what it has passed.
\<close>

fun Ext_scan :: "string \<Rightarrow> string \<Rightarrow> string" where
  "Ext_scan [] passed = []"
| "Ext_scan (c # before) passed =
     (if c = CHR ''/'' then []
      else if c = CHR ''.'' then c # passed
      else Ext_scan before (c # passed))"

definition Ext :: "string \<Rightarrow> string" where
  "Ext p = Ext_scan (rev p) []"

text \<open>\<^verbatim>\<open>strings.ToLower\<close> on the ASCII letters, all that the type tags compared need.\<close>

definition ToLower :: "string \<Rightarrow> string" where
  "ToLower s = map (\<lambda>c. if 65 \<le> (of_char c :: nat) \<and> (of_char c :: nat) \<le> 90
                            then char_of ((of_char c :: nat) + 32) else c) s"

definition getFileExtension :: "string \<Rightarrow> string \<Rightarrow> string" where
  "getFileExtension url adType =
     (if Ext url \<noteq> [] \<and> takeWhile (\<lambda>c. c \<noteq> CHR ''?'') (Ext url) \<noteq> []
      then takeWhile (\<lambda>c. c \<noteq> CHR ''?'') (Ext url)
      else if ToLower adType = ''image'' then ''.jpg''
      else if ToLower adType = ''video'' then ''.mp4''
      else if ToLower adType = ''html'' then ''.html''
      else if ToLower adType = ''text'' then ''.txt''
      else ''.bin'')"

record Downloader =
  storage :: Storage
  maxRetries :: int
  dl_retryDelay :: Duration

definition NewDownloader :: "Storage \<Rightarrow> int64 \<Rightarrow> int64 \<Rightarrow> Downloader" where
  "NewDownloader st retries retryDelaySeconds =
     \<lparr> storage = st, maxRetries = sint retries, dl_retryDelay = retryDelaySeconds * Second \<rparr>"

definition GetLocalPath :: "(string list \<Rightarrow> path) \<Rightarrow> Downloader \<Rightarrow> fs \<Rightarrow> Ad \<Rightarrow> path \<times> bool" where
  "GetLocalPath join d files ad =
     (let ext = getFileExtension (ContentURL ad) (Type ad);
          fileName = ID ad @ ext;
          localPath = GetAdMediaPath join (storage d) (ID ad) fileName
      in case Stat files localPath of
           Some sz \<Rightarrow> if 0 < sz then (localPath, True) else ([], False)
         | None \<Rightarrow> ([], False))"

datatype dl_error =
    LocalFileNotFound path
  | MediaDirFailed
  | NewRequestFailed
  | ExecuteFailed string
  | UnexpectedStatus int
  | DestinationDirFailed
  | DestinationFileFailed
  | WriteFailed
  | EmptyOrInvalid
  | DownloadExhausted int "dl_error option"

text \<open>
  What the disk does to one download: nothing wrong, or \<^verbatim>\<open>os.MkdirAll\<close> fails, or
  \<^verbatim>\<open>os.Create\<close> fails, or \<^verbatim>\<open>io.Copy\<close> breaks off after so many bytes. The disk, like
  the network, is the environment: \<open>disk k\<close> is its behaviour at the \<open>k\<close>-th round trip.
\<close>

datatype disk_outcome = DiskOk | MkdirFails | CreateFails | CopyFails nat

definition DownloadFile ::
  "(string \<Rightarrow> bool) \<Rightarrow> transport \<Rightarrow> (nat \<Rightarrow> disk_outcome) \<Rightarrow> string \<Rightarrow> path \<Rightarrow> fs \<Rightarrow> World
     \<Rightarrow> dl_error option \<times> fs \<times> World" where
  "DownloadFile url_ok Do disk url destPath files w =
     (if \<not> url_ok url then (Some NewRequestFailed, files, w)
      else
        (case Do (calls w) \<lparr> Method = ''GET'', URL = url,
                              Header = [(''User-Agent'', ''MnemoCast-Client/1.0'')],
                              ReqBody = None \<rparr> of
           Inl err \<Rightarrow> (Some (ExecuteFailed err), files, w\<lparr>calls := Suc (calls w)\<rparr>)
         | Inr resp \<Rightarrow>
             (if StatusCode resp \<noteq> 200
              then (Some (UnexpectedStatus (StatusCode resp)), files, w\<lparr>calls := Suc (calls w)\<rparr>)
              else
                (case disk (calls w) of
                   MkdirFails \<Rightarrow> (Some DestinationDirFailed, files, w\<lparr>calls := Suc (calls w)\<rparr>)
                 | CreateFails \<Rightarrow> (Some DestinationFileFailed, files, w\<lparr>calls := Suc (calls w)\<rparr>)
                 | CopyFails n \<Rightarrow>
                     (Some WriteFailed, files(destPath \<mapsto> take n (Body resp)),
                      w\<lparr>calls := Suc (calls w)\<rparr>)
                 | DiskOk \<Rightarrow>
                     (None, files(destPath \<mapsto> Body resp), w\<lparr>calls := Suc (calls w)\<rparr>)))))"

text \<open>The retry loop of \<^verbatim>\<open>DownloadAdMedia\<close> (lines 70-95).\<close>

function DownloadAdMedia_loop ::
  "(string \<Rightarrow> bool) \<Rightarrow> transport \<Rightarrow> (nat \<Rightarrow> disk_outcome) \<Rightarrow> Downloader \<Rightarrow> string \<Rightarrow> path
     \<Rightarrow> int \<Rightarrow> dl_error option \<Rightarrow> fs \<Rightarrow> World \<Rightarrow> (dl_error + path) \<times> fs \<times> World" where
  "DownloadAdMedia_loop url_ok Do disk d url localPath attempt lastErr files w =
     (if attempt \<le> maxRetries d then
        (case DownloadFile url_ok Do disk url localPath files
                (if 0 < attempt then Sleep (dl_retryDelay d * word_of_int attempt) w else w) of
           (None, files', w') \<Rightarrow>
             (case Stat files' localPath of
                Some sz \<Rightarrow>
                  if 0 < sz then (Inr localPath, files', w')
                  else DownloadAdMedia_loop url_ok Do disk d url localPath (attempt + 1)
                         (Some EmptyOrInvalid) files' w'
              | None \<Rightarrow>
                  DownloadAdMedia_loop url_ok Do disk d url localPath (attempt + 1)
                    (Some EmptyOrInvalid) files' w')
         | (Some err, files', w') \<Rightarrow>
             DownloadAdMedia_loop url_ok Do disk d url localPath (attempt + 1) (Some err) files' w')
      else (Inl (DownloadExhausted (maxRetries d + 1) lastErr), files, w))"
  by pat_completeness auto
termination
  by (relation "measure (\<lambda>(url_ok, Do, disk, d, url, localPath, attempt, lastErr, files, w).
        nat (maxRetries d + 1 - attempt))") auto

declare DownloadAdMedia_loop.simps [simp del]

definition HasPrefix :: "string \<Rightarrow> string \<Rightarrow> bool" where
  "HasPrefix s pre = (take (length pre) s = pre)"

definition TrimPrefix :: "string \<Rightarrow> string \<Rightarrow> string" where
  "TrimPrefix s pre = (if HasPrefix s pre then drop (length pre) s else s)"

text \<open>
  \<^verbatim>\<open>DownloadAdMedia\<close>. \<open>mkdir_ok\<close> says whether \<^verbatim>\<open>EnsureAdMediaDir\<close> succeeds.
\<close>

definition DownloadAdMedia ::
  "(string list \<Rightarrow> path) \<Rightarrow> (string \<Rightarrow> bool) \<Rightarrow> transport \<Rightarrow> (nat \<Rightarrow> disk_outcome) \<Rightarrow> bool
     \<Rightarrow> Downloader \<Rightarrow> Ad \<Rightarrow> fs \<Rightarrow> World \<Rightarrow> (dl_error + path) \<times> fs \<times> World" where
  "DownloadAdMedia join url_ok Do disk mkdir_ok d ad files w =
     (case GetLocalPath join d files ad of
        (localPath, True) \<Rightarrow> (Inr localPath, files, w)
      | (unused, False) \<Rightarrow>
          if HasPrefix (ContentURL ad) ''file://'' then
            (let localPath = TrimPrefix (ContentURL ad) ''file://'' in
             case Stat files localPath of
               Some sz \<Rightarrow> (Inr localPath, files, w)
             | None \<Rightarrow> (Inl (LocalFileNotFound localPath), files, w))
          else if \<not> mkdir_ok then (Inl MediaDirFailed, files, w)
          else
            (let ext = getFileExtension (ContentURL ad) (Type ad);
                 fileName = ID ad @ ext;
                 localPath = GetAdMediaPath join (storage d) (ID ad) fileName
             in DownloadAdMedia_loop url_ok Do disk d (ContentURL ad) localPath 0 None files w))"

text \<open>A concrete \<open>join\<close> for the runs below: the elements with a slash between them.\<close>

fun join_slash :: "string list \<Rightarrow> path" where
  "join_slash [] = []"
| "join_slash [x] = x"
| "join_slash (x # y # zs) = x @ ''/'' @ join_slash (y # zs)"

definition local_empty_ad :: Ad where
  "local_empty_ad = sample_ad\<lparr>ContentURL := ''file:///tmp/empty.jpg''\<rparr>"

definition local_empty_fs :: fs where
  "local_empty_fs = [''/tmp/empty.jpg'' \<mapsto> []]"

definition player_downloader :: Downloader where
  "player_downloader = NewDownloader (NewStorage join_slash ''/home/u/.mnemocast'') 3 5"

section \<open>Secret vault (pkg/storage encryption, internal/credentials/storage.go)\<close>

text \<open>
  Byte strings are \<open>string\<close>s. The standard library is a parameter: SHA-256, the AES-GCM
  seal and open under a key and a nonce, base64, and the JSON codec of the credentials
  record. What the code relies on from them is stated where it is used, not built in.
\<close>

record Credentials =
  ScreenID :: string
  Passkey :: string

record primitives =
  Sum256 :: "string \<Rightarrow> string"
  gcm_seal :: "string \<Rightarrow> string \<Rightarrow> string \<Rightarrow> string"
  gcm_open :: "string \<Rightarrow> string \<Rightarrow> string \<Rightarrow> string option"
  EncodeToString :: "string \<Rightarrow> string"
  DecodeString :: "string \<Rightarrow> string option"
  Marshal :: "Credentials \<Rightarrow> string"
  Unmarshal :: "string \<Rightarrow> Credentials option"

datatype vault_error =
    CipherFailed | NonceFailed | TooShort | DecryptFailed | Base64Failed
  | KeyGenFailed | KeySaveFailed | ConfigDirFailed | CredsSaveFailed | CredsNotFound
  | EncryptCredentials vault_error | DecryptCredentials vault_error | UnmarshalFailed

text \<open>A Go call that returns a value and an error, or panics.\<close>

datatype 'a go = Panic | Error vault_error | Value 'a

definition NonceSize :: nat where
  "NonceSize = 12"

text \<open>
  \<^verbatim>\<open>io.ReadFull(rand.Reader, buf)\<close>: the buffer filled, or an error. \<open>rnd n\<close> is what the
  random source gives when asked for \<open>n\<close> bytes.
\<close>

definition ReadFull :: "(nat \<Rightarrow> string option) \<Rightarrow> nat \<Rightarrow> string option" where
  "ReadFull rnd n =
     (case rnd n of None \<Rightarrow> None | Some b \<Rightarrow> if length b = n then Some b else None)"

text \<open>\<^verbatim>\<open>aes.NewCipher\<close> accepts keys of 16, 24 or 32 bytes.\<close>

definition NewCipher_ok :: "string \<Rightarrow> bool" where
  "NewCipher_ok key32 = (length key32 = 16 \<or> length key32 = 24 \<or> length key32 = 32)"


definition Open :: "primitives \<Rightarrow> string \<Rightarrow> string \<Rightarrow> string \<Rightarrow> string go" where
  "Open prim key32 nonce ciphertext =
     (if length nonce \<noteq> NonceSize then Panic
      else case gcm_open prim key32 nonce ciphertext of
             None \<Rightarrow> Error DecryptFailed
           | Some plaintext \<Rightarrow> Value plaintext)"

text \<open>Go's slice expressions \<^verbatim>\<open>s[:n]\<close> and \<^verbatim>\<open>s[n:]\<close> panic out of range.\<close>

definition slice_to :: "string \<Rightarrow> nat \<Rightarrow> string go" where
  "slice_to s n = (if n \<le> length s then Value (take n s) else Panic)"

definition slice_from :: "string \<Rightarrow> nat \<Rightarrow> string go" where
  "slice_from s n = (if n \<le> length s then Value (drop n s) else Panic)"


definition Decrypt :: "primitives \<Rightarrow> string \<Rightarrow> string \<Rightarrow> string go" where
  "Decrypt prim encryptedData key =
     (let key32 = Sum256 prim key in
      if \<not> NewCipher_ok key32 then Error CipherFailed
      else if length encryptedData < NonceSize then Error TooShort
      else
        (case slice_to encryptedData NonceSize of
           Panic \<Rightarrow> Panic
         | Error e \<Rightarrow> Error e
         | Value nonce \<Rightarrow>
             (case slice_from encryptedData NonceSize of
                Panic \<Rightarrow> Panic
              | Error e \<Rightarrow> Error e
              | Value ciphertext \<Rightarrow> Open prim key32 nonce ciphertext)))"


definition DecryptFromBase64 :: "primitives \<Rightarrow> string \<Rightarrow> string \<Rightarrow> string go" where
  "DecryptFromBase64 prim encryptedBase64 key =
     (case DecodeString prim encryptedBase64 of
        None \<Rightarrow> Error Base64Failed
      | Some encrypted \<Rightarrow> Decrypt prim encrypted key)"

definition GenerateEncryptionKey :: "(nat \<Rightarrow> string option) \<Rightarrow> string go" where
  "GenerateEncryptionKey rnd =
     (case ReadFull rnd 32 of None \<Rightarrow> Error KeyGenFailed | Some key \<Rightarrow> Value key)"

text \<open>
  The credential storage on the file system \<open>fs\<close>. \<open>mkdir_ok\<close> and \<open>writable\<close> say
  whether \<^verbatim>\<open>os.MkdirAll\<close> and \<^verbatim>\<open>os.WriteFile\<close> succeed; a file that is there can be read.
\<close>

record CredentialStorage =
  configDir :: path
  keyFile :: path
  credsFile :: path


definition getOrCreateKey ::
  "(nat \<Rightarrow> string option) \<Rightarrow> (path \<Rightarrow> bool) \<Rightarrow> CredentialStorage \<Rightarrow> fs \<Rightarrow> (string \<times> fs) go" where
  "getOrCreateKey rnd writable s files =
     (case files (keyFile s) of
        Some data \<Rightarrow> Value (data, files)
      | None \<Rightarrow>
          (case GenerateEncryptionKey rnd of
             Panic \<Rightarrow> Panic
           | Error e \<Rightarrow> Error e
           | Value key \<Rightarrow>
               if \<not> writable (keyFile s) then Error KeySaveFailed
               else Value (key, files(keyFile s \<mapsto> key))))"


definition Load ::
  "primitives \<Rightarrow> (nat \<Rightarrow> string option) \<Rightarrow> (path \<Rightarrow> bool) \<Rightarrow> CredentialStorage \<Rightarrow> fs
     \<Rightarrow> (Credentials \<times> fs) go" where
  "Load prim rnd writable s files =
     (case files (credsFile s) of
        None \<Rightarrow> Error CredsNotFound
      | Some unused \<Rightarrow>
          (case getOrCreateKey rnd writable s files of
             Panic \<Rightarrow> Panic
           | Error e \<Rightarrow> Error e
           | Value (key, files1) \<Rightarrow>
               (case files1 (credsFile s) of
                  None \<Rightarrow> Error CredsNotFound
                | Some encryptedBase64 \<Rightarrow>
                    (case DecryptFromBase64 prim encryptedBase64 key of
                       Panic \<Rightarrow> Panic
                     | Error e \<Rightarrow> Error (DecryptCredentials e)
                     | Value data \<Rightarrow>
                         (case Unmarshal prim data of
                            None \<Rightarrow> Error UnmarshalFailed
                          | Some creds \<Rightarrow> Value (creds, files1))))))"

text \<open>
  Stand-ins for the library with the properties the round trip relies on, for concrete
  runs: a 32-byte digest, a seal that appends a 16-byte tag and an open that checks and
  removes it, base64 as the identity, and a codec of the two fields around a separator.
\<close>

definition plain_primitives :: primitives where
  "plain_primitives =
     \<lparr> Sum256 = (\<lambda>k. take 32 (k @ replicate 32 (CHR ''0''))),
       gcm_seal = (\<lambda>k n m. m @ ''tttttttttttttttt''),
       gcm_open = (\<lambda>k n c. if 16 \<le> length c \<and> drop (length c - 16) c = ''tttttttttttttttt''
                            then Some (take (length c - 16) c) else None),
       EncodeToString = (\<lambda>b. b),
       DecodeString = (\<lambda>s. Some s),
       Marshal = (\<lambda>c. ScreenID c @ ''|'' @ Passkey c),
       Unmarshal = (\<lambda>s. if CHR ''|'' \<in> set s
                          then Some \<lparr> ScreenID = takeWhile (\<lambda>c. c \<noteq> CHR ''|'') s,
                                      Passkey = tl (dropWhile (\<lambda>c. c \<noteq> CHR ''|'') s) \<rparr>
                          else None) \<rparr>"




section \<open>Ad storage: saving the manifest (internal/ads/storage.go)\<close>

text \<open>
  The wrapper \<^verbatim>\<open>SaveAds\<close> serializes. \<^verbatim>\<open>json.MarshalIndent\<close> is the library's and is the
  parameter \<open>marshal\<close>.
\<close>

record AdsMetadata =
  FetchedAt :: Time
  md_PlaylistID :: string
  md_UpdatedAt :: Time
  md_Ads :: "Ad list"
  AdsCount :: int64

text \<open>
  The system calls behind the file operations, and what each does to the files.
  \<^verbatim>\<open>os.WriteFile(name, data, perm)\<close> opens \<open>name\<close> itself with
  \<^verbatim>\<open>O_WRONLY|O_CREATE|O_TRUNC\<close>, writes \<open>data\<close> and closes: from the open on, the path
  holds an empty file, until the write has gone through. Directories are not files and
  leave the map as it is.
\<close>

datatype sysop =
    OpMkdirAll path
  | OpOpenTrunc path
  | OpWrite path string
  | OpClose path
  | OpRename path path

definition os_WriteFile :: "path \<Rightarrow> string \<Rightarrow> sysop list" where
  "os_WriteFile name data = [OpOpenTrunc name, OpWrite name data, OpClose name]"

definition apply_op :: "sysop \<Rightarrow> fs \<Rightarrow> fs" where
  "apply_op c files =
     (case c of
        OpMkdirAll p \<Rightarrow> files
      | OpOpenTrunc p \<Rightarrow> files(p \<mapsto> [])
      | OpWrite p data \<Rightarrow> files(p \<mapsto> (case files p of None \<Rightarrow> data | Some old \<Rightarrow> old @ data))
      | OpClose p \<Rightarrow> files
      | OpRename a b \<Rightarrow> (files(b := files a))(a := None))"

text \<open>
  Running system calls in order until one fails (\<open>fails\<close> is the environment's say):
  the call that failed, if any, and the file system after each call that went through,
  which is what a concurrent reader can come across.
\<close>

fun run_calls :: "(sysop \<Rightarrow> bool) \<Rightarrow> sysop list \<Rightarrow> fs \<Rightarrow> sysop option \<times> fs list" where
  "run_calls fails [] files = (None, [])"
| "run_calls fails (c # cs) files =
     (if fails c then (Some c, [])
      else (case run_calls fails cs (apply_op c files) of
              (failed, states) \<Rightarrow> (failed, apply_op c files # states)))"

text \<open>The system calls of \<^verbatim>\<open>SaveAds\<close>, in the order of the source.\<close>

definition SaveAds_calls ::
  "(AdsMetadata \<Rightarrow> string) \<Rightarrow> Time \<Rightarrow> Storage \<Rightarrow> AdDeliveryResponse \<Rightarrow> sysop list" where
  "SaveAds_calls marshal now s adResponse =
     [OpMkdirAll (adsDir s), OpMkdirAll (mediaDir s)]
     @ os_WriteFile (adsFile s)
         (marshal \<lparr> FetchedAt = now, md_PlaylistID = PlaylistID adResponse,
                    md_UpdatedAt = UpdatedAt adResponse, md_Ads = Ads adResponse,
                    AdsCount = len (Ads adResponse) \<rparr>)"

datatype ads_error = AdsDirFailed | MediaDirFailed_ads | SaveFileFailed

text \<open>
  \<^verbatim>\<open>SaveAds\<close>: the error it returns, if any, and the file systems on the way.
\<close>

definition SaveAds ::
  "(AdsMetadata \<Rightarrow> string) \<Rightarrow> (sysop \<Rightarrow> bool) \<Rightarrow> Time \<Rightarrow> Storage \<Rightarrow> AdDeliveryResponse \<Rightarrow> fs
     \<Rightarrow> ads_error option \<times> fs list" where
  "SaveAds marshal fails now s adResponse files =
     (case run_calls fails (SaveAds_calls marshal now s adResponse) files of
        (None, states) \<Rightarrow> (None, states)
      | (Some c, states) \<Rightarrow>
          (if c = OpMkdirAll (adsDir s) then (Some AdsDirFailed, states)
           else if c = OpMkdirAll (mediaDir s) then (Some MediaDirFailed_ads, states)
           else (Some SaveFileFailed, states)))"

text \<open>
  A stand-in for the JSON encoder in concrete runs (any encoder's output is a non-empty
  text), the storage of a device, and a manifest already on disk.
\<close>

definition plain_marshal :: "AdsMetadata \<Rightarrow> string" where
  "plain_marshal m = ''{ playlistId: '' @ md_PlaylistID m @ '' }''"

definition device_storage :: Storage where
  "device_storage = NewStorage join_slash ''/home/u/.mnemocast''"

definition manifest_P :: AdDeliveryResponse where
  "manifest_P = \<lparr> Ads = [sample_ad], PlaylistID = ''P'', UpdatedAt = 10 \<rparr>"

definition manifest_Q :: AdDeliveryResponse where
  "manifest_Q = \<lparr> Ads = [sample_ad], PlaylistID = ''Q'', UpdatedAt = 20 \<rparr>"

definition disk_with_P :: fs where
  "disk_with_P = [adsFile device_storage \<mapsto> ''{ playlistId: P }'']"

definition nothing_fails :: "sysop \<Rightarrow> bool" where
  "nothing_fails c = False"

section \<open>Scheduler: results\<close>

lemma sint_Second: "sint Second = 1000000000"
  by (simp add: Second_def)

lemma sint_min_bound: "sint (5 * Second) = 5000000000"
  by (simp add: Second_def)

lemma sint_max_bound: "sint (300 * Second) = 300000000000"
  by (simp add: Second_def)

lemma GetAdDuration_range:
  "5 * Second \<le>s GetAdDuration (NewScheduler d t) ad \<and>
   GetAdDuration (NewScheduler d t) ad \<le>s 300 * Second"
  by (simp add: GetAdDuration_def NewScheduler_def Let_def word_sle_eq word_sless_alt
      sint_min_bound sint_max_bound)

lemma mult_Second_no_overflow:
  assumes "0 < sint (d::int64)" and "sint d \<le> 9223372036"
  shows "sint (d * Second) = sint d * 1000000000"
proof -
  have "sint (d * Second) = signed_take_bit 63 (sint d * sint Second)"
    by (simp add: sint_word_ariths)
  also have "\<dots> = sint d * 1000000000"
    using assms by (simp add: sint_Second signed_take_bit_int_eq_self)
  finally show ?thesis .
qed

text \<open>
  Where the product \<^verbatim>\<open>time.Duration(ad.Duration) * time.Second\<close> does not leave the
  64-bit range (a duration of at most 9223372036 seconds, some 292 years), the code
  computes the specification's clamp.
\<close>

lemma GetAdDuration_refines_spec:
  assumes "sint (Duration ad) \<le> 9223372036"
  shows "sint (GetAdDuration (NewScheduler d t) ad) =
         DurationFor_spec (sint (defaultDuration (NewScheduler d t))) (sint (Duration ad))"
  using assms mult_Second_no_overflow [of "Duration ad"]
  by (auto simp add: GetAdDuration_def NewScheduler_def Let_def word_sless_alt
      DurationFor_spec_def clamp_spec_def sint_min_bound sint_max_bound)

lemma GetAdDuration_identity_in_range:
  assumes "5 \<le> sint (Duration ad)" and "sint (Duration ad) \<le> 300"
  shows "GetAdDuration (NewScheduler d t) ad = Duration ad * Second"
  using assms mult_Second_no_overflow [of "Duration ad"]
  by (auto simp add: GetAdDuration_def NewScheduler_def Let_def word_sless_alt
      sint_min_bound sint_max_bound)

text \<open>
  C6. The claim: for every ad, \<^verbatim>\<open>GetAdDuration\<close> is the ad's duration in seconds when
  that is positive (the default otherwise), clamped into 5 s .. 300 s. For the player's
  scheduler \<open>NewScheduler 30 1\<close> and an ad of 9223372037 seconds the product
  \<^verbatim>\<open>time.Duration(ad.Duration) * time.Second\<close> wraps to a negative 64-bit value, and the
  code answers the minimum, 5 s, where the clamp of the claim is the maximum, 300 s.
  (The result stays within 5 s .. 300 s for every ad, and the claim holds for every
  duration up to 9223372036: \<open>GetAdDuration_range\<close>, \<open>GetAdDuration_refines_spec\<close>.)
\<close>

theorem GetAdDuration_overflow:
  "GetAdDuration (NewScheduler 30 1) (sample_ad\<lparr>Duration := 9223372037\<rparr>) = 5 * Second \<and>
   DurationFor_spec (sint (defaultDuration (NewScheduler 30 1))) 9223372037
     = sint (300 * Second :: Duration) \<and>
   sint (Duration (sample_ad\<lparr>Duration := 9223372037\<rparr>)) = 9223372037"
  by (simp add: GetAdDuration_def NewScheduler_def Let_def word_sless_alt Second_def
      DurationFor_spec_def clamp_spec_def)

section \<open>Playlist: results\<close>

lemma FilterByTime_loop_filter:
  "FilterByTime_loop now as acc = acc @ filter (in_window_spec now) as"
  by (induction as arbitrary: acc)
    (auto simp: in_window_spec_def IsZero_def After_def Before_def Equal_def Let_def)

text \<open>
  C7. Called on a playlist whose mutex is not held for writing, \<^verbatim>\<open>FilterByTime\<close> returns
  the ads of the playlist, in their order, that satisfy: (start absent or \<open>now \<ge> start\<close>)
  and (end absent or \<open>now \<le> end\<close>), absent being Go's zero time. An ad with no bound
  satisfies this; an ad with no start and an end before \<open>now\<close> does not.
\<close>

theorem FilterByTime_window:
  assumes "mu p \<noteq> WLocked"
  shows "\<exists>kept. FilterByTime now p = Returned kept \<and>
           kept = filter (\<lambda>a. (StartTime a = 0 \<or> StartTime a \<le> now) \<and>
                                (EndTime a = 0 \<or> now \<le> EndTime a)) (ads p) \<and>
           (\<forall>a \<in> set (ads p). StartTime a = 0 \<and> EndTime a = 0 \<longrightarrow> a \<in> set kept) \<and>
           (\<forall>a. StartTime a = 0 \<and> EndTime a \<noteq> 0 \<and> EndTime a < now \<longrightarrow> a \<notin> set kept)"
proof -
  have loop: "FilterByTime_loop now (ads p) [] = filter (in_window_spec now) (ads p)"
    by (simp add: FilterByTime_loop_filter)
  have ret: "FilterByTime now p = Returned (FilterByTime_loop now (ads p) [])"
    using assms by (simp add: FilterByTime_def RLock_def split: RWMutex.splits)
  have pred: "in_window_spec now = (\<lambda>a. (StartTime a = 0 \<or> StartTime a \<le> now) \<and>
                                           (EndTime a = 0 \<or> now \<le> EndTime a))"
    by (simp add: in_window_spec_def fun_eq_iff)
  show ?thesis
    unfolding ret loop pred by auto
qed

theorem FilterByTime_window_witness:
  "FilterByTime 1000 scenario_D = Returned [sample_ad\<lparr>ID := ''U''\<rparr>]"
proof -
  have h: "mu scenario_D \<noteq> WLocked"
    by (simp add: scenario_D_def)
  show ?thesis
    using FilterByTime_window [OF h, of 1000]
    by (simp add: scenario_D_def sample_ad_def)
qed

text \<open>
  What \<^verbatim>\<open>GetNextAd\<close> would hand out once it held the filtered slice: sorting keeps the
  ads and orders them by descending priority, then ascending id, and the cursor picks
  index \<open>cursor mod length\<close> and moves on by one.
\<close>

lemma mset_insert_ad: "mset (insert_ad x ys) = add_mset x (mset ys)"
  by (induction ys) auto

lemma mset_SortByPriority: "mset (SortByPriority as) = mset as"
  by (induction as) (auto simp: SortByPriority_def mset_insert_ad)

lemma length_SortByPriority: "length (SortByPriority as) = length as"
  using mset_SortByPriority [of as] by (metis size_mset)

lemma set_insert_ad: "set (insert_ad x ys) = insert x (set ys)"
  by (induction ys) auto

lemma less_ad_key:
  "less_ad a b \<longleftrightarrow>
     sint (Priority b) < sint (Priority a) \<or>
     (sint (Priority a) = sint (Priority b) \<and> ID a < ID b)"
  using word_eq_iff_signed [where 'a = int, of "Priority a" "Priority b"]
  by (auto simp: less_ad_def word_sless_alt)

lemma not_less_ad_trans:
  "\<not> less_ad b a \<Longrightarrow> \<not> less_ad c b \<Longrightarrow> \<not> less_ad c a"
  unfolding less_ad_key by force

lemma sorted_insert_ad:
  "sorted_wrt (\<lambda>a b. \<not> less_ad b a) ys \<Longrightarrow> sorted_wrt (\<lambda>a b. \<not> less_ad b a) (insert_ad x ys)"
proof (induction ys)
  case Nil
  then show ?case by simp
next
  case (Cons y ys)
  show ?case
  proof (cases "less_ad x y")
    case True
    have "\<not> less_ad y x" using True unfolding less_ad_key by auto
    moreover have "\<not> less_ad z x" if "z \<in> set ys" for z
    proof -
      have "\<not> less_ad z y" using Cons.prems that by auto
      then show ?thesis using \<open>\<not> less_ad y x\<close> not_less_ad_trans by blast
    qed
    ultimately show ?thesis using True Cons.prems by auto
  next
    case False
    then show ?thesis using Cons by (auto simp: set_insert_ad)
  qed
qed

lemma sorted_SortByPriority: "sorted_wrt (\<lambda>a b. \<not> less_ad b a) (SortByPriority as)"
  by (induction as) (auto simp: SortByPriority_def sorted_insert_ad)

lemma select_step:
  assumes "activeAds \<noteq> []" and "0 \<le> sint (currentIdx p)"
  shows "GetNextAd_select activeAds p =
     Returned (Some (SortByPriority activeAds ! (nat (sint (currentIdx p)) mod length activeAds)),
               p\<lparr>currentIdx := currentIdx p + 1, mu := Unlocked\<rparr>)"
proof -
  define n where "n = int (length activeAds)"
  define i where "i = sint (currentIdx p) smod n"
  have n: "0 < n" using assms by (simp add: n_def)
  have sm: "i = sint (currentIdx p) mod n"
    using assms n by (simp add: i_def signed_modulo_int_def sgn_if)
  have range: "\<not> (i < 0 \<or> n \<le> i)"
    using pos_mod_sign [OF n, of "sint (currentIdx p)"] pos_mod_bound [OF n, of "sint (currentIdx p)"]
    unfolding sm by linarith
  have idx: "nat i = nat (sint (currentIdx p)) mod length activeAds"
    using assms by (simp add: sm n_def nat_mod_distrib)
  have len: "length (SortByPriority activeAds) = length activeAds"
    by (rule length_SortByPriority)
  show ?thesis
    unfolding GetNextAd_select_def Let_def len
    using assms(1) range idx by (simp add: i_def [symmetric] n_def [symmetric] Unlock_def)
qed

text \<open>
  C1. The claim: each call of \<^verbatim>\<open>GetNextAd\<close> returns the element at index
  \<open>cursor mod length\<close> of the filtered and sorted list, or nil when that list is empty.
  The code never gets there. \<^verbatim>\<open>GetNextAd\<close> takes the write lock of \<^verbatim>\<open>p.mu\<close> and, still
  holding it, calls \<^verbatim>\<open>FilterByTime\<close>, which asks for the read lock of the same mutex;
  \<^verbatim>\<open>sync.RWMutex\<close> is not re-entrant, so that request waits for a release that only the
  waiting goroutine could perform. On every playlist and at every instant the call blocks:
  it returns neither an ad nor nil.
\<close>

theorem GetNextAd_blocks: "GetNextAd now p = Blocked"
  by (simp add: GetNextAd_def FilterByTime_def Lock_def RLock_def split: RWMutex.splits)

section \<open>Server client: results\<close>

lemma doRequest_3_unrolled:
  "doRequest Do req 3 d w =
     (case Do (calls w) req of
        Inr r \<Rightarrow> (Inr r, w\<lparr>calls := calls w + 1\<rparr>)
      | Inl e0 \<Rightarrow>
     (case Do (Suc (calls w)) req of
        Inr r \<Rightarrow> (Inr r, w\<lparr>calls := calls w + 2, slept := slept w @ [d * 1]\<rparr>)
      | Inl e1 \<Rightarrow>
     (case Do (Suc (Suc (calls w))) req of
        Inr r \<Rightarrow> (Inr r, w\<lparr>calls := calls w + 3, slept := slept w @ [d * 1, d * 2]\<rparr>)
      | Inl e2 \<Rightarrow>
     (case Do (Suc (Suc (Suc (calls w)))) req of
        Inr r \<Rightarrow> (Inr r, w\<lparr>calls := calls w + 4, slept := slept w @ [d * 1, d * 2, d * 3]\<rparr>)
      | Inl e3 \<Rightarrow> (Inl (RequestFailed 4 (Some e3)),
                    w\<lparr>calls := calls w + 4, slept := slept w @ [d * 1, d * 2, d * 3]\<rparr>)))))"
  by (simp add: doRequest_def Sleep_def numeral_3_eq_3 numeral_2_eq_2 split: sum.splits)

lemma doRequest_3_exhausted:
  assumes "\<forall>k<4. \<exists>e. Do (calls w + k) req = Inl e"
  shows "\<exists>e. doRequest Do req 3 d w =
     (Inl (RequestFailed 4 (Some e)), w\<lparr>calls := calls w + 4, slept := slept w @ [d * 1, d * 2, d * 3]\<rparr>)"
proof -
  obtain e0 where e0: "Do (calls w) req = Inl e0" using assms [rule_format, of 0] by (auto simp: numeral_2_eq_2 numeral_3_eq_3)
  obtain e1 where e1: "Do (Suc (calls w)) req = Inl e1" using assms [rule_format, of 1] by (auto simp: numeral_2_eq_2 numeral_3_eq_3)
  obtain e2 where e2: "Do (Suc (Suc (calls w))) req = Inl e2" using assms [rule_format, of 2] by (auto simp: numeral_2_eq_2 numeral_3_eq_3)
  obtain e3 where e3: "Do (Suc (Suc (Suc (calls w)))) req = Inl e3" using assms [rule_format, of 3] by (auto simp: numeral_2_eq_2 numeral_3_eq_3)
  show ?thesis
    by (simp add: doRequest_3_unrolled e0 e1 e2 e3)
qed

lemma doRequest_3_response:
  assumes "j \<le> 3" and "\<forall>k<j. \<exists>e. Do (calls w + k) req = Inl e"
    and "Do (calls w + j) req = Inr resp"
  shows "doRequest Do req 3 d w =
     (Inr resp, w\<lparr>calls := calls w + j + 1, slept := slept w @ take j [d * 1, d * 2, d * 3]\<rparr>)"
proof -
  consider "j = 0" | "j = 1" | "j = 2" | "j = 3" using assms(1) by linarith
  then show ?thesis
  proof cases
    case 1
    then show ?thesis using assms by (simp add: doRequest_3_unrolled)
  next
    case 2
    obtain e0 where e0: "Do (calls w) req = Inl e0" using assms(2) [rule_format, of 0] 2 by (auto simp: numeral_2_eq_2 numeral_3_eq_3)
    show ?thesis using assms(3) 2 by (simp add: doRequest_3_unrolled e0)
  next
    case 3
    obtain e0 where e0: "Do (calls w) req = Inl e0" using assms(2) [rule_format, of 0] 3 by (auto simp: numeral_2_eq_2 numeral_3_eq_3)
    obtain e1 where e1: "Do (Suc (calls w)) req = Inl e1" using assms(2) [rule_format, of 1] 3 by (auto simp: numeral_2_eq_2 numeral_3_eq_3)
    show ?thesis using assms(3) 3 by (simp add: doRequest_3_unrolled e0 e1 numeral_2_eq_2)
  next
    case 4
    obtain e0 where e0: "Do (calls w) req = Inl e0" using assms(2) [rule_format, of 0] 4 by (auto simp: numeral_2_eq_2 numeral_3_eq_3)
    obtain e1 where e1: "Do (Suc (calls w)) req = Inl e1" using assms(2) [rule_format, of 1] 4 by (auto simp: numeral_2_eq_2 numeral_3_eq_3)
    obtain e2 where e2: "Do (Suc (Suc (calls w))) req = Inl e2" using assms(2) [rule_format, of 2] 4 by (auto simp: numeral_2_eq_2 numeral_3_eq_3)
    show ?thesis using assms(3) 4 by (simp add: doRequest_3_unrolled e0 e1 e2 numeral_3_eq_3)
  qed
qed

lemma perform_exhausted:
  assumes "url_ok (connect_url c)" and "url_ok (heartbeat_url c sid)" and "url_ok (ads_url c sid)"
    and "\<forall>k<4. \<forall>req. \<exists>e. Do (calls w + k) req = Inl e"
  shows "\<exists>e. perform url_ok decodeScreen decodeAds Do now c sid opn w =
           (Some e, w\<lparr>calls := calls w + 4,
                     slept := slept w @ [2 * Second * 1, 2 * Second * 2, 2 * Second * 3]\<rparr>)"
proof -
  have ex: "\<exists>e. doRequest Do req 3 (2 * Second) w =
       (Inl (RequestFailed 4 (Some e)),
        w\<lparr>calls := calls w + 4,
          slept := slept w @ [2 * Second * 1, 2 * Second * 2, 2 * Second * 3]\<rparr>)" for req
    using assms(4) by (intro doRequest_3_exhausted) blast
  show ?thesis
  proof (cases opn)
    case OpConnect
    then show ?thesis
      using assms(1) ex [of "\<lparr>Method = ''POST'', URL = connect_url c,
          Header = [(''Content-Type'', ''application/json'')]
            @ (if screenID c \<noteq> [] then [(''X-Screen-Id'', screenID c)] else [])
            @ (if passkey c \<noteq> [] then [(''X-Screen-Passkey'', passkey c)] else []),
          ReqBody = None\<rparr>"]
      by (auto simp add: perform_def Connect_def createRequest_def)
  next
    case OpHeartbeat
    then show ?thesis
      using assms(2) ex [of "\<lparr>Method = ''PUT'', URL = heartbeat_url c sid,
          Header = [(''Content-Type'', ''application/json'')]
            @ (if screenID c \<noteq> [] then [(''X-Screen-Id'', screenID c)] else [])
            @ (if passkey c \<noteq> [] then [(''X-Screen-Passkey'', passkey c)] else []),
          ReqBody = Some \<lparr>hb_Status = ''online'', hb_Timestamp = now\<rparr>\<rparr>"]
      by (auto simp add: perform_def Heartbeat_def createRequest_def)
  next
    case OpGetAds
    then show ?thesis
      using assms(3) ex [of "\<lparr>Method = ''GET'', URL = ads_url c sid,
          Header = [(''Content-Type'', ''application/json'')]
            @ (if screenID c \<noteq> [] then [(''X-Screen-Id'', screenID c)] else [])
            @ (if passkey c \<noteq> [] then [(''X-Screen-Passkey'', passkey c)] else []),
          ReqBody = None\<rparr>"]
      by (auto simp add: perform_def GetAds_def createRequest_def)
  qed
qed

lemma perform_rejected:
  assumes "url_ok (connect_url c)" and "url_ok (heartbeat_url c sid)" and "url_ok (ads_url c sid)"
    and "j \<le> 3" and "\<forall>k<j. \<forall>req. \<exists>e. Do (calls w + k) req = Inl e"
    and "\<forall>req. Do (calls w + j) req = Inr resp"
    and "\<not> accepts_spec opn (StatusCode resp)"
  shows "\<exists>e. perform url_ok decodeScreen decodeAds Do now c sid opn w =
           (Some e, w\<lparr>calls := calls w + j + 1,
                     slept := slept w @ take j [2 * Second * 1, 2 * Second * 2, 2 * Second * 3]\<rparr>)"
proof -
  have ex: "doRequest Do req 3 (2 * Second) w =
       (Inr resp,
        w\<lparr>calls := calls w + j + 1,
          slept := slept w @ take j [2 * Second * 1, 2 * Second * 2, 2 * Second * 3]\<rparr>)" for req
    using assms(4,5,6) by (intro doRequest_3_response) blast+
  show ?thesis
  proof (cases opn)
    case OpConnect
    then show ?thesis
      using assms(1,7)
      by (auto simp add: perform_def Connect_def createRequest_def ex accepts_spec_def)
  next
    case OpHeartbeat
    then show ?thesis
      using assms(2,7)
      by (auto simp add: perform_def Heartbeat_def createRequest_def ex accepts_spec_def)
  next
    case OpGetAds
    then show ?thesis
      using assms(3,7)
      by (auto simp add: perform_def GetAds_def createRequest_def ex accepts_spec_def)
  qed
qed

text \<open>
  C4, as the code has it. For each of Connect, Heartbeat and GetAds: a transport failure
  is retried up to 3 more times, a constant of the client that no configuration value
  reaches, with a sleep of 2 s times \<open>attempt\<close> before retry number \<open>attempt\<close>; when all
  four round trips fail the operation fails. The first response received ends the
  attempts: a response whose status is outside the operation's accept set (401 and 403
  among them) makes the operation fail with no further round trip.
\<close>

theorem client_retry_fixed:
  assumes "url_ok (connect_url c)" and "url_ok (heartbeat_url c sid)" and "url_ok (ads_url c sid)"
  shows "((\<forall>k<4. \<forall>req. \<exists>e. Do (calls w + k) req = Inl e) \<longrightarrow>
            (\<exists>e. perform url_ok decodeScreen decodeAds Do now c sid opn w =
               (Some e, w\<lparr>calls := calls w + 4,
                         slept := slept w @ [2 * Second * 1, 2 * Second * 2, 2 * Second * 3]\<rparr>))) \<and>
         (j \<le> 3 \<and> (\<forall>k<j. \<forall>req. \<exists>e. Do (calls w + k) req = Inl e) \<and>
            (\<forall>req. Do (calls w + j) req = Inr resp) \<and> \<not> accepts_spec opn (StatusCode resp) \<longrightarrow>
            (\<exists>e. perform url_ok decodeScreen decodeAds Do now c sid opn w =
               (Some e, w\<lparr>calls := calls w + j + 1,
                         slept := slept w @ take j [2 * Second * 1, 2 * Second * 2, 2 * Second * 3]\<rparr>)))"
  using perform_exhausted [OF assms] perform_rejected [OF assms] by blast

theorem client_retry_fixed_witness:
  "(\<exists>e. perform (\<lambda>u. True) (\<lambda>b. Some b) (\<lambda>b. None) unreachable 0
           (client_of_config DefaultConfig ''scr-1'' ''pk-1'') ''scr-1'' OpHeartbeat fresh =
         (Some e, \<lparr>calls = 4, slept = [2 * Second, 4 * Second, 6 * Second]\<rparr>)) \<and>
   (\<exists>e. perform (\<lambda>u. True) (\<lambda>b. Some b) (\<lambda>b. None) (answers 401) 0
           (client_of_config DefaultConfig ''scr-1'' ''pk-1'') ''scr-1'' OpHeartbeat fresh =
         (Some e, \<lparr>calls = 1, slept = []\<rparr>))"
proof -
  let ?c = "client_of_config DefaultConfig ''scr-1'' ''pk-1''"
  have u: "(\<lambda>u. True) (connect_url ?c)" "(\<lambda>u. True) (heartbeat_url ?c ''scr-1'')"
    "(\<lambda>u. True) (ads_url ?c ''scr-1'')"
    by simp_all
  have a: "\<forall>k<4. \<forall>req. \<exists>e. unreachable (calls fresh + k) req = Inl e"
    by (simp add: unreachable_def)
  have b: "(0::nat) \<le> 3 \<and> (\<forall>k<0. \<forall>req. \<exists>e. answers 401 (calls fresh + k) req = Inl e) \<and>
           (\<forall>req. answers 401 (calls fresh + 0) req = Inr \<lparr>StatusCode = 401, Body = []\<rparr>) \<and>
           \<not> accepts_spec OpHeartbeat (StatusCode \<lparr>StatusCode = 401, Body = []\<rparr>)"
    by (simp add: answers_def accepts_spec_def)
  have first: "\<exists>e. perform (\<lambda>u. True) (\<lambda>b. Some b) (\<lambda>b. None) unreachable 0 ?c ''scr-1'' OpHeartbeat fresh =
         (Some e, \<lparr>calls = 4, slept = [2 * Second, 4 * Second, 6 * Second]\<rparr>)"
    using client_retry_fixed [OF u, where Do = unreachable and w = fresh and opn = OpHeartbeat
        and decodeScreen = "\<lambda>b. Some b" and decodeAds = "\<lambda>b. None" and now = 0] a
    by (simp add: fresh_def Second_def)
  have second: "\<exists>e. perform (\<lambda>u. True) (\<lambda>b. Some b) (\<lambda>b. None) (answers 401) 0 ?c ''scr-1'' OpHeartbeat fresh =
         (Some e, \<lparr>calls = 1, slept = []\<rparr>)"
    using client_retry_fixed [OF u, where Do = "answers 401" and w = fresh and opn = OpHeartbeat
        and decodeScreen = "\<lambda>b. Some b" and decodeAds = "\<lambda>b. None" and now = 0 and j = 0
        and resp = "\<lparr>StatusCode = 401, Body = []\<rparr>"] b
    by (simp add: fresh_def)
  show ?thesis using first second by blast
qed

text \<open>
  C4 as claimed has the number of retries and the base delay come from the
  configuration. With the default configuration (3 retries, base delay 5 s) and a server
  that cannot be reached, Connect sleeps 2 s, 4 s and 6 s where the claim has 5 s, 10 s
  and 15 s; with one configured retry it still makes four round trips, not two.
\<close>

theorem client_retry_ignores_config:
  "snd (Connect (\<lambda>u. True) (\<lambda>b. Some b) unreachable
          (client_of_config DefaultConfig ''scr-1'' ''pk-1'') fresh)
     = \<lparr>calls = 4, slept = [2 * Second, 4 * Second, 6 * Second]\<rparr> \<and>
   exhausted_spec DefaultConfig fresh
     = \<lparr>calls = 4, slept = [5 * Second, 10 * Second, 15 * Second]\<rparr> \<and>
   snd (Connect (\<lambda>u. True) (\<lambda>b. Some b) unreachable
          (client_of_config (DefaultConfig\<lparr>RetryAttempts := 1\<rparr>) ''scr-1'' ''pk-1'') fresh)
     = \<lparr>calls = 4, slept = [2 * Second, 4 * Second, 6 * Second]\<rparr> \<and>
   exhausted_spec (DefaultConfig\<lparr>RetryAttempts := 1\<rparr>) fresh
     = \<lparr>calls = 2, slept = [5 * Second]\<rparr>"
proof -
  have code: "snd (Connect (\<lambda>u. True) (\<lambda>b. Some b) unreachable (client_of_config cfg ''scr-1'' ''pk-1'') fresh)
     = \<lparr>calls = 4, slept = [2 * Second, 4 * Second, 6 * Second]\<rparr>" for cfg
    by (simp add: Connect_def createRequest_def doRequest_3_unrolled unreachable_def fresh_def
        Second_def)
  have three: "[Suc 0 ..< 4] = [Suc 0, 2, 3]" and one: "[Suc 0 ..< 2] = [Suc 0]"
    by (simp_all add: upt_rec)
  have spec3: "exhausted_spec DefaultConfig fresh
     = \<lparr>calls = 4, slept = [5 * Second, 10 * Second, 15 * Second]\<rparr>"
    by (simp add: exhausted_spec_def DefaultConfig_def fresh_def three Second_def)
  have spec1: "exhausted_spec (DefaultConfig\<lparr>RetryAttempts := 1\<rparr>) fresh
     = \<lparr>calls = 2, slept = [5 * Second]\<rparr>"
    by (simp add: exhausted_spec_def DefaultConfig_def fresh_def one Second_def)
  show ?thesis
    using code spec3 spec1 by simp
qed

section \<open>Heartbeat loop: results\<close>













section \<open>Player: results\<close>



text \<open>
  The renderer failing on the next ad leaves the previous ad as the current one, in
  state error.
\<close>

lemma player_error_with_current_ad:
  "player_run [CallStart, LoopLoadBegin, LoopRendered sample_ad, LoopLoadBegin,
               LoopRenderFailed ''no renderer''] NewPlayer \<noteq> None \<and>
   map_option state (player_run [CallStart, LoopLoadBegin, LoopRendered sample_ad, LoopLoadBegin,
               LoopRenderFailed ''no renderer''] NewPlayer) = Some PlayerStateError \<and>
   map_option currentAd (player_run [CallStart, LoopLoadBegin, LoopRendered sample_ad, LoopLoadBegin,
               LoopRenderFailed ''no renderer''] NewPlayer) = Some (Some sample_ad)"
  by (simp add: player_step_def NewPlayer_def Start_def loadNextAd_begin_def
      loadNextAd_rendered_def loadNextAd_render_failed_def set_state_def)




section \<open>Media downloader: results\<close>

text \<open>
  Where \<^verbatim>\<open>DownloadAdMedia\<close> does keep its promise: on a cache hit, and on every path that
  is not the \<^verbatim>\<open>file://\<close> branch, a returned path holds a non-empty file.
\<close>

lemma DownloadAdMedia_loop_nonempty:
  "DownloadAdMedia_loop url_ok Do disk d url localPath attempt lastErr files w = (Inr p, files', w')
     \<Longrightarrow> \<exists>content. files' p = Some content \<and> content \<noteq> []"
proof (induction url_ok Do disk d url localPath attempt lastErr files w
    rule: DownloadAdMedia_loop.induct)
  case (1 url_ok Do disk d url localPath attempt lastErr files w)
  from "1.prems" show ?case
    by (subst (asm) DownloadAdMedia_loop.simps)
      (auto simp add: Stat_def split: if_splits prod.splits option.splits dest: "1.IH")
qed

lemma GetLocalPath_nonempty:
  "GetLocalPath join d files ad = (p, True) \<Longrightarrow> \<exists>content. files p = Some content \<and> content \<noteq> []"
  by (auto simp: GetLocalPath_def Let_def Stat_def split: option.splits if_splits)

lemma DownloadAdMedia_nonempty_unless_local:
  assumes "DownloadAdMedia join url_ok Do disk mkdir_ok d ad files w = (Inr p, files', w')"
    and "snd (GetLocalPath join d files ad) \<or> \<not> HasPrefix (ContentURL ad) ''file://''"
  shows "\<exists>content. files' p = Some content \<and> content \<noteq> []"
proof (cases "GetLocalPath join d files ad")
  case (Pair lp hit)
  show ?thesis
  proof (cases hit)
    case True
    then show ?thesis using assms(1) Pair GetLocalPath_nonempty [of join d files ad lp]
      by (simp add: DownloadAdMedia_def)
  next
    case False
    then have nl: "\<not> HasPrefix (ContentURL ad) ''file://''" using assms(2) Pair by simp
    show ?thesis
      using assms(1) Pair False nl
      by (auto simp add: DownloadAdMedia_def Let_def split: if_splits dest: DownloadAdMedia_loop_nonempty)
  qed
qed

text \<open>
  C5. The claim: a path that \<^verbatim>\<open>DownloadAdMedia\<close> returns holds a file of non-zero size,
  on the \<^verbatim>\<open>file://\<close> branch as well. On that branch the code asks \<^verbatim>\<open>os.Stat\<close> only
  whether the file is there, where the cache lookup and the download loop beside it also
  ask for \<^verbatim>\<open>info.Size() > 0\<close>. For an ad whose content URL is
  \<^verbatim>\<open>file:///tmp/empty.jpg\<close>, no cached copy, and an empty file at that place, the code
  returns the path of the empty file.
\<close>

theorem DownloadAdMedia_local_empty:
  "DownloadAdMedia join_slash (\<lambda>u. True) unreachable (\<lambda>k. DiskOk) True player_downloader
     local_empty_ad local_empty_fs fresh = (Inr ''/tmp/empty.jpg'', local_empty_fs, fresh) \<and>
   Stat local_empty_fs ''/tmp/empty.jpg'' = Some 0"
  by (simp add: DownloadAdMedia_def GetLocalPath_def Let_def Stat_def local_empty_ad_def
      local_empty_fs_def player_downloader_def NewDownloader_def NewStorage_def GetAdMediaPath_def
      getFileExtension_def Ext_def sample_ad_def HasPrefix_def TrimPrefix_def)

section \<open>Secret vault: results\<close>

lemma Decrypt_no_panic: "Decrypt prim encryptedData key \<noteq> Panic"
  by (simp add: Decrypt_def Let_def slice_to_def slice_from_def Open_def NonceSize_def
      split: option.splits)

lemma DecryptFromBase64_no_panic: "DecryptFromBase64 prim s key \<noteq> Panic"
  by (simp add: DecryptFromBase64_def Decrypt_no_panic split: option.splits)

lemma getOrCreateKey_no_panic: "getOrCreateKey rnd writable s files \<noteq> Panic"
  by (simp add: getOrCreateKey_def GenerateEncryptionKey_def split: option.splits)

lemma Load_no_panic: "Load prim rnd writable s files \<noteq> Panic"
  using getOrCreateKey_no_panic [of rnd writable s files]
  by (auto simp add: Load_def DecryptFromBase64_no_panic split: option.splits go.splits)

text \<open>
  C10. \<^verbatim>\<open>Decrypt\<close>, \<^verbatim>\<open>DecryptFromBase64\<close> and \<^verbatim>\<open>Load\<close> never panic, whatever the bytes
  and whatever the library primitives return. With SHA-256 giving its 32 bytes: an input
  shorter than the nonce is answered with the error "encrypted data too short" (the
  slices are never taken out of range), through base64 as well; text that is not base64
  is an error; and a blob that the AES-GCM open rejects (tampered or malformed) is the error
  "failed to decrypt".
\<close>

theorem Decrypt_total:
  "Decrypt prim encryptedData key \<noteq> Panic \<and>
   DecryptFromBase64 prim encryptedBase64 key \<noteq> Panic \<and>
   Load prim rnd writable s files \<noteq> Panic \<and>
   (length (Sum256 prim key) = 32 \<and> length encryptedData < NonceSize \<longrightarrow>
      Decrypt prim encryptedData key = Error TooShort) \<and>
   (length (Sum256 prim key) = 32 \<and> DecodeString prim encryptedBase64 = Some encryptedData \<and>
      length encryptedData < NonceSize \<longrightarrow>
      DecryptFromBase64 prim encryptedBase64 key = Error TooShort) \<and>
   (DecodeString prim encryptedBase64 = None \<longrightarrow>
      DecryptFromBase64 prim encryptedBase64 key = Error Base64Failed) \<and>
   (length (Sum256 prim key) = 32 \<and> NonceSize \<le> length encryptedData \<and>
      gcm_open prim (Sum256 prim key) (take NonceSize encryptedData) (drop NonceSize encryptedData) = None \<longrightarrow>
      Decrypt prim encryptedData key = Error DecryptFailed)"
  using Decrypt_no_panic [of prim encryptedData key] DecryptFromBase64_no_panic [of prim encryptedBase64 key]
    Load_no_panic [of prim rnd writable s files]
  by (auto simp add: Decrypt_def DecryptFromBase64_def Let_def NewCipher_ok_def slice_to_def
      slice_from_def Open_def NonceSize_def)

theorem Decrypt_total_witness:
  "Decrypt plain_primitives ''short'' ''key'' = Error TooShort \<and>
   DecryptFromBase64 plain_primitives ''short'' ''key'' = Error TooShort \<and>
   Decrypt plain_primitives ''rrrrrrrrrrrrtampered-blob-xxxxxxxx'' ''key'' = Error DecryptFailed"
proof -
  have sha: "length (Sum256 plain_primitives ''key'') = 32"
    by (simp add: plain_primitives_def)
  have short: "length ''short'' < NonceSize"
    by (simp add: NonceSize_def)
  have b64: "DecodeString plain_primitives ''short'' = Some ''short''"
    by (simp add: plain_primitives_def)
  have long: "NonceSize \<le> length ''rrrrrrrrrrrrtampered-blob-xxxxxxxx''"
    by (simp add: NonceSize_def)
  have rejected: "gcm_open plain_primitives (Sum256 plain_primitives ''key'')
      (take NonceSize ''rrrrrrrrrrrrtampered-blob-xxxxxxxx'')
      (drop NonceSize ''rrrrrrrrrrrrtampered-blob-xxxxxxxx'') = None"
    by (simp add: plain_primitives_def NonceSize_def)
  show ?thesis
    using Decrypt_total [where prim = plain_primitives and encryptedData = "''short''"
        and key = "''key''" and ?encryptedBase64.0 = "''short''"]
      Decrypt_total [where prim = plain_primitives
        and encryptedData = "''rrrrrrrrrrrrtampered-blob-xxxxxxxx''" and key = "''key''"]
      sha short b64 long rejected
    by blast
qed





section \<open>Ad storage: results\<close>

lemma SaveAds_calls_unfolded:
  "SaveAds_calls marshal now s adResponse =
     [OpMkdirAll (adsDir s), OpMkdirAll (mediaDir s), OpOpenTrunc (adsFile s),
      OpWrite (adsFile s)
        (marshal \<lparr> FetchedAt = now, md_PlaylistID = PlaylistID adResponse,
                   md_UpdatedAt = UpdatedAt adResponse, md_Ads = Ads adResponse,
                   AdsCount = len (Ads adResponse) \<rparr>),
      OpClose (adsFile s)]"
  by (simp add: SaveAds_calls_def os_WriteFile_def)

text \<open>
  C3, as the code has it. \<^verbatim>\<open>SaveAds\<close> writes the serialized wrapper straight to the
  manifest path with \<^verbatim>\<open>os.WriteFile\<close>: it never renames, and the only path it opens or
  writes is the manifest path itself. When no system call fails it returns no error and
  the manifest path ends up holding the complete serialized wrapper; on the way, right
  after the open, the path holds an empty file.
\<close>

theorem SaveAds_writes_in_place:
  "OpRename a b \<notin> set (SaveAds_calls marshal now s adResponse) \<and>
   (OpOpenTrunc p \<in> set (SaveAds_calls marshal now s adResponse) \<longrightarrow> p = adsFile s) \<and>
   (OpWrite p d \<in> set (SaveAds_calls marshal now s adResponse) \<longrightarrow> p = adsFile s) \<and>
   ((\<forall>c. \<not> fails c) \<longrightarrow>
      fst (SaveAds marshal fails now s adResponse files) = None \<and>
      length (snd (SaveAds marshal fails now s adResponse files)) = 5 \<and>
      (snd (SaveAds marshal fails now s adResponse files) ! 2) (adsFile s) = Some [] \<and>
      (snd (SaveAds marshal fails now s adResponse files) ! 4) (adsFile s) =
        Some (marshal \<lparr> FetchedAt = now, md_PlaylistID = PlaylistID adResponse,
                         md_UpdatedAt = UpdatedAt adResponse, md_Ads = Ads adResponse,
                         AdsCount = len (Ads adResponse) \<rparr>))"
  by (simp add: SaveAds_calls_unfolded SaveAds_def apply_op_def)

theorem SaveAds_writes_in_place_witness:
  "fst (SaveAds plain_marshal nothing_fails 30 device_storage manifest_Q disk_with_P) = None \<and>
   (snd (SaveAds plain_marshal nothing_fails 30 device_storage manifest_Q disk_with_P) ! 4)
      ''/home/u/.mnemocast/ads/current_ads.json'' = Some ''{ playlistId: Q }''"
proof -
  have h: "\<forall>c. \<not> nothing_fails c"
    by (simp add: nothing_fails_def)
  show ?thesis
    using SaveAds_writes_in_place [where fails = nothing_fails and marshal = plain_marshal
        and now = 30 and s = device_storage and adResponse = manifest_Q and files = disk_with_P] h
    by (simp add: plain_marshal_def device_storage_def NewStorage_def manifest_Q_def)
qed

text \<open>
  C3 as claimed has the wrapper go to a temporary sibling and be renamed into place, so
  that the manifest path never holds a truncated file. On a device whose manifest file
  holds playlist P, saving playlist Q issues no rename: it opens the manifest path with
  truncation, and after that call the path holds an empty file, neither the old record
  nor the new one.
\<close>

theorem SaveAds_truncates_in_place:
  "SaveAds_calls plain_marshal 30 device_storage manifest_Q =
     [OpMkdirAll ''/home/u/.mnemocast/ads'', OpMkdirAll ''/home/u/.mnemocast/ads/media'',
      OpOpenTrunc ''/home/u/.mnemocast/ads/current_ads.json'',
      OpWrite ''/home/u/.mnemocast/ads/current_ads.json'' ''{ playlistId: Q }'',
      OpClose ''/home/u/.mnemocast/ads/current_ads.json''] \<and>
   disk_with_P ''/home/u/.mnemocast/ads/current_ads.json'' = Some ''{ playlistId: P }'' \<and>
   (snd (SaveAds plain_marshal nothing_fails 30 device_storage manifest_Q disk_with_P) ! 2)
      ''/home/u/.mnemocast/ads/current_ads.json'' = Some []"
  by (simp add: SaveAds_calls_unfolded SaveAds_def apply_op_def nothing_fails_def
      plain_marshal_def device_storage_def NewStorage_def manifest_Q_def disk_with_P_def)

end
